theory Spec2Isabelle
  imports Complex_Main "HOL-Library.Word"
begin

section \<open>The HTTP client of lean-cli: \<^verbatim>\<open>lean/components/util/http_client.py\<close>\<close>

text \<open>
  The class \<^verbatim>\<open>HTTPClient\<close> wraps the \<^verbatim>\<open>requests\<close> library with debug logging, a status
  check and a streamed download with a progress bar. The embedding threads an explicit
  world (what the logger received, the progress indicator's calls, the files) through every
  method, and returns exceptions as values: a method yields a pair of \<open>exn + result\<close> and
  the world it leaves behind, so that what was logged or written before a raise stays
  observable.

  Strings are Python \<^verbatim>\<open>str\<close> values whose code points are below 256 (one \<open>char\<close> per
  code point); HTTP header values reach the client decoded this way.
\<close>

subsection \<open>Python values, responses, exceptions\<close>

type_synonym bytes = "8 word list"

text \<open>
  The values a caller passes as \<^verbatim>\<open>json=\<close>, \<^verbatim>\<open>data=\<close> or \<^verbatim>\<open>params=\<close>: \<^verbatim>\<open>None\<close>, booleans,
  integers, strings, \<^verbatim>\<open>bytes\<close> (a usual form body, which \<^verbatim>\<open>json.dumps\<close> refuses), lists and
  dictionaries with string keys in insertion order.
\<close>

datatype pyval =
    PNone
  | PBool bool
  | PInt int
  | PStr string
  | PBytes bytes
  | PList "pyval list"
  | PDict "(string \<times> pyval) list"

text \<open>
  What one \<^verbatim>\<open>next()\<close> on \<^verbatim>\<open>response.iter_content(chunk_size=8192)\<close> does: it yields a chunk,
  or the user presses Ctrl-C while the read blocks, or the transport fails to read. The end
  of the list is the end of the body.
\<close>

datatype chunk_event = Chunk bytes | Cancelled | Read_failed string

text \<open>
  A \<^verbatim>\<open>requests.Response\<close>: \<open>body_text\<close> is the attribute \<^verbatim>\<open>text\<close>, \<open>headers\<close> is the
  case-insensitive dictionary, keyed here by the lower-case header name, and
  \<open>iter_content\<close> lists what the chunk iterator does, call after call.
\<close>

record response =
  status_code :: int
  body_text :: string
  headers :: "string \<rightharpoonup> string"
  iter_content :: "chunk_event list"

datatype exn =
    HTTPError response
  | KeyboardInterrupt
  | ValueError
  | TypeError
  | ChunkedEncodingError string
  | ConnectionError string
  | OSError string

text \<open>
  The keyword arguments of a request. A field is \<open>None\<close> when the key is not in
  \<^verbatim>\<open>kwargs\<close>; \<open>Some PNone\<close> is a key passed as \<^verbatim>\<open>None\<close>.
\<close>

record kwargs =
  json :: "pyval option"
  data :: "pyval option"
  params :: "pyval option"
  raise_for_status :: "bool option"
  stream :: "bool option"

definition no_kwargs :: kwargs where
  "no_kwargs = \<lparr>json = None, data = None, params = None, raise_for_status = None, stream = None\<rparr>"

definition kwargs_get :: "kwargs \<Rightarrow> string \<Rightarrow> pyval option" where
  "kwargs_get kw key =
     (if key = ''json'' then json kw
      else if key = ''data'' then data kw
      else if key = ''params'' then params kw
      else None)"

subsection \<open>The collaborators: logger, progress indicator, files, transport\<close>

datatype progress_event =
    Progress_created
  | Add_task string nat
  | Update nat real
  | Stop

record world =
  debug_log :: "string list"
  progress_log :: "progress_event list"
  files :: "string \<rightharpoonup> bytes"
  open_handles :: "string list"
  unwritable :: "string list"

definition empty_world :: world where
  "empty_world = \<lparr>debug_log = [], progress_log = [], files = (\<lambda>p. None), open_handles = [],
     unwritable = []\<rparr>"

text \<open>
  The logger of \<^verbatim>\<open>lean.components.util.logger\<close> is not part of the sources at hand. The
  specification asks of it a debug-level text logging operation and a factory for a progress
  indicator that supports adding an unbounded task (returning a task handle), updating a
  task's completed percentage, and stopping. The five operations below record each call in
  the world, in the order of the calls.
\<close>

text \<open>Modelled from the spec: \<^verbatim>\<open>Logger.debug\<close>, the debug-level text logging operation.\<close>

definition logger_debug :: "string \<Rightarrow> world \<Rightarrow> world" where
  "logger_debug message w = w\<lparr>debug_log := debug_log w @ [message]\<rparr>"

text \<open>Modelled from the spec: \<^verbatim>\<open>Logger.progress\<close>, the factory of a progress indicator.\<close>

definition logger_progress :: "world \<Rightarrow> world" where
  "logger_progress w = w\<lparr>progress_log := progress_log w @ [Progress_created]\<rparr>"

definition is_add_task :: "progress_event \<Rightarrow> bool" where
  "is_add_task e = (case e of Add_task d t \<Rightarrow> True | _ \<Rightarrow> False)"

text \<open>
  Modelled from the spec: \<^verbatim>\<open>progress.add_task\<close>, which adds an unbounded task and returns
  its handle; the handle is the number of tasks added before.
\<close>

definition progress_add_task :: "string \<Rightarrow> world \<Rightarrow> nat \<times> world" where
  "progress_add_task description w =
     (let task = length (filter is_add_task (progress_log w))
      in (task, w\<lparr>progress_log := progress_log w @ [Add_task description task]\<rparr>))"

text \<open>Modelled from the spec: \<^verbatim>\<open>progress.update(task, completed=...)\<close>.\<close>

definition progress_update :: "nat \<Rightarrow> real \<Rightarrow> world \<Rightarrow> world" where
  "progress_update task completed w = w\<lparr>progress_log := progress_log w @ [Update task completed]\<rparr>"

text \<open>Modelled from the spec: \<^verbatim>\<open>progress.stop()\<close>.\<close>

definition progress_stop :: "world \<Rightarrow> world" where
  "progress_stop w = w\<lparr>progress_log := progress_log w @ [Stop]\<rparr>"

text \<open>
  \<^verbatim>\<open>output_path.open("wb")\<close> truncates the file and hands out a handle, or raises
  \<^verbatim>\<open>OSError\<close> on a path that cannot be written; \<^verbatim>\<open>file.write\<close> appends; leaving the
  \<^verbatim>\<open>with\<close> block closes the handle.
\<close>

definition open_wb :: "string \<Rightarrow> world \<Rightarrow> exn + world" where
  "open_wb path w =
     (if path \<in> set (unwritable w) then Inl (OSError path)
      else Inr (w\<lparr>files := (files w)(path \<mapsto> []), open_handles := path # open_handles w\<rparr>))"

definition file_write :: "string \<Rightarrow> bytes \<Rightarrow> world \<Rightarrow> world" where
  "file_write path chunk w =
     w\<lparr>files := (files w)(path \<mapsto> (case files w path of None \<Rightarrow> chunk | Some old \<Rightarrow> old @ chunk))\<rparr>"

definition file_close :: "string \<Rightarrow> world \<Rightarrow> world" where
  "file_close path w = w\<lparr>open_handles := remove1 path (open_handles w)\<rparr>"

text \<open>
  The transport: \<^verbatim>\<open>requests.get\<close>, \<^verbatim>\<open>requests.post\<close> and \<^verbatim>\<open>requests.request\<close>, each
  returning a response or raising (a connection error, say). What the network answers is
  a parameter of the model.
\<close>

record env =
  requests_get :: "string \<Rightarrow> kwargs \<Rightarrow> exn + response"
  requests_post :: "string \<Rightarrow> kwargs \<Rightarrow> exn + response"
  requests_request :: "string \<Rightarrow> string \<Rightarrow> kwargs \<Rightarrow> exn + response"

definition constant_transport :: "response \<Rightarrow> env" where
  "constant_transport r =
     \<lparr>requests_get = (\<lambda>url kw. Inr r), requests_post = (\<lambda>url kw. Inr r),
      requests_request = (\<lambda>method url kw. Inr r)\<rparr>"

text \<open>
  \<^verbatim>\<open>Response.raise_for_status()\<close> of the \<^verbatim>\<open>requests\<close> library, which the client calls and
  does not define: it raises \<^verbatim>\<open>HTTPError(msg, response=self)\<close> when
  \<^verbatim>\<open>400 <= self.status_code < 500\<close> (client error) or \<^verbatim>\<open>500 <= self.status_code < 600\<close>
  (server error), and returns otherwise.
\<close>

definition response_raise_for_status :: "response \<Rightarrow> exn + unit" where
  "response_raise_for_status r =
     (if 400 \<le> status_code r \<and> status_code r < 500 then Inl (HTTPError r)
      else if 500 \<le> status_code r \<and> status_code r < 600 then Inl (HTTPError r)
      else Inr ())"

subsection \<open>Library functions on strings\<close>

text \<open>Decimal rendering of an integer, as an f-string formats \<^verbatim>\<open>{response.status_code}\<close>.\<close>

fun str_nat :: "nat \<Rightarrow> string" where
  "str_nat n =
     (if n < 10 then [''0123456789'' ! n]
      else str_nat (n div 10) @ [''0123456789'' ! (n mod 10)])"

definition str_int :: "int \<Rightarrow> string" where
  "str_int i = (if i < 0 then CHR ''-'' # str_nat (nat (- i)) else str_nat (nat i))"

text \<open>\<^verbatim>\<open>str.upper()\<close>, exact on ASCII (HTTP method names are ASCII tokens).\<close>

definition upper_char :: "char \<Rightarrow> char" where
  "upper_char c =
     (case map_of (zip ''abcdefghijklmnopqrstuvwxyz'' ''ABCDEFGHIJKLMNOPQRSTUVWXYZ'') c of
        None \<Rightarrow> c
      | Some u \<Rightarrow> u)"

definition upper :: "string \<Rightarrow> string" where
  "upper s = map upper_char s"

text \<open>
  \<^verbatim>\<open>int(s)\<close> on a string, base 10: surrounding whitespace is skipped (the ASCII
  whitespace of C, and the two spaces of Latin-1 above it), one sign is allowed, and the
  digits may be grouped by single underscores; everything else raises \<^verbatim>\<open>ValueError\<close>.
  (CPython's limit on the number of digits of a literal is not modelled.)
\<close>

definition is_space :: "char \<Rightarrow> bool" where
  "is_space c = (c \<in> set [CHR 0x09, CHR 0x0A, CHR 0x0B, CHR 0x0C, CHR 0x0D, CHR 0x20,
     CHR 0x85, CHR 0xA0])"

definition digit_value :: "char \<Rightarrow> nat option" where
  "digit_value c = map_of (zip ''0123456789'' [0, 1, 2, 3, 4, 5, 6, 7, 8, 9]) c"

fun parse_digits :: "nat \<Rightarrow> string \<Rightarrow> nat option" where
  "parse_digits acc [] = Some acc"
| "parse_digits acc (c # cs) =
     (case digit_value c of
        Some d \<Rightarrow> parse_digits (acc * 10 + d) cs
      | None \<Rightarrow>
          (if c = CHR ''_'' then
             (case cs of
                [] \<Rightarrow> None
              | c' # cs' \<Rightarrow>
                  (case digit_value c' of
                     Some d \<Rightarrow> parse_digits (acc * 10 + d) cs'
                   | None \<Rightarrow> None))
           else None))"

definition py_int :: "string \<Rightarrow> exn + int" where
  "py_int s =
     (let t = rev (dropWhile is_space (rev (dropWhile is_space s)));
          negative = (case t of c # _ \<Rightarrow> c = CHR ''-'' | [] \<Rightarrow> False);
          ds = (case t of c # cs \<Rightarrow> if c = CHR ''-'' \<or> c = CHR ''+'' then cs else t | [] \<Rightarrow> [])
      in case ds of
           [] \<Rightarrow> Inl ValueError
         | c # cs \<Rightarrow>
             (case digit_value c of
                None \<Rightarrow> Inl ValueError
              | Some d \<Rightarrow>
                  (case parse_digits d cs of
                     None \<Rightarrow> Inl ValueError
                   | Some n \<Rightarrow> Inr (if negative then - int n else int n))))"

text \<open>
  \<^verbatim>\<open>json.dumps(data, indent=4)\<close>: strings are escaped as \<^verbatim>\<open>ensure_ascii\<close> does, containers
  are broken over lines with four spaces per level, items are separated by a comma, keys
  from values by a colon and a space; an empty container stays on one line. A value that
  is not JSON serialisable raises \<^verbatim>\<open>TypeError\<close>.
\<close>

definition hex_digit :: "nat \<Rightarrow> char" where
  "hex_digit n = ''0123456789abcdef'' ! n"

definition escape_char :: "char \<Rightarrow> string" where
  "escape_char c =
     (if c = CHR 0x22 then [CHR 0x5C, CHR 0x22]
      else if c = CHR 0x5C then [CHR 0x5C, CHR 0x5C]
      else if c = CHR 0x0A then [CHR 0x5C, CHR ''n'']
      else if c = CHR 0x0D then [CHR 0x5C, CHR ''r'']
      else if c = CHR 0x09 then [CHR 0x5C, CHR ''t'']
      else if c = CHR 0x08 then [CHR 0x5C, CHR ''b'']
      else if c = CHR 0x0C then [CHR 0x5C, CHR ''f'']
      else if 32 \<le> (of_char c :: nat) \<and> (of_char c :: nat) \<le> 126 then [c]
      else [CHR 0x5C, CHR ''u'', CHR ''0'', CHR ''0'',
            hex_digit ((of_char c :: nat) div 16), hex_digit ((of_char c :: nat) mod 16)])"

definition json_string :: "string \<Rightarrow> string" where
  "json_string s = CHR 0x22 # concat (map escape_char s) @ [CHR 0x22]"

definition newline_indent :: "nat \<Rightarrow> string" where
  "newline_indent level = CHR 0x0A # replicate (4 * level) CHR '' ''"

fun join :: "string \<Rightarrow> string list \<Rightarrow> string" where
  "join sep [] = []"
| "join sep [x] = x"
| "join sep (x # y # rest) = x @ sep @ join sep (y # rest)"

fun sequence_sum :: "('e + 'a) list \<Rightarrow> 'e + 'a list" where
  "sequence_sum [] = Inr []"
| "sequence_sum (Inl e # rest) = Inl e"
| "sequence_sum (Inr x # rest) =
     (case sequence_sum rest of Inl e \<Rightarrow> Inl e | Inr xs \<Rightarrow> Inr (x # xs))"

fun dumps_level :: "nat \<Rightarrow> pyval \<Rightarrow> exn + string" where
  "dumps_level level PNone = Inr ''null''"
| "dumps_level level (PBool b) = Inr (if b then ''true'' else ''false'')"
| "dumps_level level (PInt i) = Inr (str_int i)"
| "dumps_level level (PStr s) = Inr (json_string s)"
| "dumps_level level (PBytes b) = Inl TypeError"
| "dumps_level level (PList xs) =
     (if xs = [] then Inr ''[]''
      else case sequence_sum (map (dumps_level (Suc level)) xs) of
             Inl e \<Rightarrow> Inl e
           | Inr items \<Rightarrow>
               Inr (''['' @ newline_indent (Suc level)
                    @ join ('','' @ newline_indent (Suc level)) items
                    @ newline_indent level @ '']''))"
| "dumps_level level (PDict kvs) =
     (if kvs = [] then Inr ''{}''
      else case sequence_sum
                  (map (\<lambda>kv. case dumps_level (Suc level) (snd kv) of
                                Inl e \<Rightarrow> Inl e
                              | Inr s \<Rightarrow> Inr (json_string (fst kv) @ '': '' @ s)) kvs) of
             Inl e \<Rightarrow> Inl e
           | Inr items \<Rightarrow>
               Inr (''{'' @ newline_indent (Suc level)
                    @ join ('','' @ newline_indent (Suc level)) items
                    @ newline_indent level @ ''}''))"

definition json_dumps_indent4 :: "pyval \<Rightarrow> exn + string" where
  "json_dumps_indent4 v = dumps_level 0 v"

subsection \<open>The client\<close>

text \<open>
  \<^verbatim>\<open>log_unsuccessful_response\<close>: one debug line with the status code and the body text, or
  the words \<^verbatim>\<open>empty body\<close>.
\<close>

definition log_unsuccessful_response :: "response \<Rightarrow> world \<Rightarrow> world" where
  "log_unsuccessful_response response w =
     (let body = (if body_text response \<noteq> [] then ''body:\<newline>'' @ body_text response
                  else ''empty body'')
      in logger_debug (''Request was not successful, status code ''
                       @ str_int (status_code response) @ '', '' @ body) w)"

text \<open>
  \<^verbatim>\<open>_log_request\<close>: the generator yields \<^verbatim>\<open>kwargs.get(key)\<close> for the keys of the fixed list
  that are in \<^verbatim>\<open>kwargs\<close>, and \<^verbatim>\<open>next\<close> takes the first one or \<^verbatim>\<open>None\<close>.
\<close>

definition log_request :: "string \<Rightarrow> string \<Rightarrow> kwargs \<Rightarrow> world \<Rightarrow> (exn + unit) \<times> world" where
  "log_request method url kw w =
     (let message = ''--> '' @ upper method @ '' '' @ url;
          data = (case List.map_filter (kwargs_get kw) [''json'', ''data'', ''params''] of
                    [] \<Rightarrow> PNone
                  | d # _ \<Rightarrow> d)
      in if data \<noteq> PNone \<and> data \<noteq> PDict [] then
           (case json_dumps_indent4 data of
              Inl e \<Rightarrow> (Inl e, w)
            | Inr s \<Rightarrow> (Inr (), logger_debug (message @ '' with data:\<newline>'' @ s) w))
         else (Inr (), logger_debug message w))"

text \<open>\<^verbatim>\<open>_check_response\<close>: the log and the raise are decided one after the other.\<close>

definition check_response :: "response \<Rightarrow> bool \<Rightarrow> world \<Rightarrow> (exn + unit) \<times> world" where
  "check_response response raise_flag w =
     (let w1 = (if status_code response < 200 \<or> status_code response \<ge> 300
                then log_unsuccessful_response response w else w)
      in if raise_flag then
           (case response_raise_for_status response of
              Inl e \<Rightarrow> (Inl e, w1)
            | Inr u \<Rightarrow> (Inr (), w1))
         else (Inr (), w1))"

text \<open>
  \<^verbatim>\<open>kwargs.pop("raise_for_status", True)\<close> reads the flag, with \<^verbatim>\<open>True\<close> for a missing key,
  and removes the key from what the transport receives.
\<close>

definition pop_raise_for_status :: "kwargs \<Rightarrow> bool \<times> kwargs" where
  "pop_raise_for_status kw =
     ((case raise_for_status kw of None \<Rightarrow> True | Some b \<Rightarrow> b), kw\<lparr>raise_for_status := None\<rparr>)"

definition get :: "env \<Rightarrow> string \<Rightarrow> kwargs \<Rightarrow> world \<Rightarrow> (exn + response) \<times> world" where
  "get env url kw w =
     (case log_request ''GET'' url kw w of
        (Inl e, w1) \<Rightarrow> (Inl e, w1)
      | (Inr u, w1) \<Rightarrow>
          (case pop_raise_for_status kw of
             (raise_flag, kw') \<Rightarrow>
               (case requests_get env url kw' of
                  Inl e \<Rightarrow> (Inl e, w1)
                | Inr response \<Rightarrow>
                    (case check_response response raise_flag w1 of
                       (Inl e, w2) \<Rightarrow> (Inl e, w2)
                     | (Inr u', w2) \<Rightarrow> (Inr response, w2)))))"

definition post :: "env \<Rightarrow> string \<Rightarrow> kwargs \<Rightarrow> world \<Rightarrow> (exn + response) \<times> world" where
  "post env url kw w =
     (case log_request ''POST'' url kw w of
        (Inl e, w1) \<Rightarrow> (Inl e, w1)
      | (Inr u, w1) \<Rightarrow>
          (case pop_raise_for_status kw of
             (raise_flag, kw') \<Rightarrow>
               (case requests_post env url kw' of
                  Inl e \<Rightarrow> (Inl e, w1)
                | Inr response \<Rightarrow>
                    (case check_response response raise_flag w1 of
                       (Inl e, w2) \<Rightarrow> (Inl e, w2)
                     | (Inr u', w2) \<Rightarrow> (Inr response, w2)))))"

definition request :: "env \<Rightarrow> string \<Rightarrow> string \<Rightarrow> kwargs \<Rightarrow> world \<Rightarrow> (exn + response) \<times> world" where
  "request env method url kw w =
     (case log_request method url kw w of
        (Inl e, w1) \<Rightarrow> (Inl e, w1)
      | (Inr u, w1) \<Rightarrow>
          (case pop_raise_for_status kw of
             (raise_flag, kw') \<Rightarrow>
               (case requests_request env method url kw' of
                  Inl e \<Rightarrow> (Inl e, w1)
                | Inr response \<Rightarrow>
                    (case check_response response raise_flag w1 of
                       (Inl e, w2) \<Rightarrow> (Inl e, w2)
                     | (Inr u', w2) \<Rightarrow> (Inr response, w2)))))"

text \<open>
  \<^verbatim>\<open>download_file\<close>. The loop over the chunks: each chunk is written, and with a progress
  indicator the byte count grows and the percentage is reported. Python's float division
  is modelled by the division of the reals.
\<close>

fun stream_chunks ::
  "nat option \<Rightarrow> int \<Rightarrow> string \<Rightarrow> chunk_event list \<Rightarrow> int \<Rightarrow> world \<Rightarrow> (exn + unit) \<times> world" where
  "stream_chunks progress total_size_bytes path [] written_bytes w = (Inr (), w)"
| "stream_chunks progress total_size_bytes path (Chunk chunk # rest) written_bytes w =
     (let w1 = file_write path chunk w
      in case progress of
           None \<Rightarrow> stream_chunks progress total_size_bytes path rest written_bytes w1
         | Some progress_task \<Rightarrow>
             (let written_bytes' = written_bytes + int (length chunk);
                  w2 = progress_update progress_task
                         (real_of_int written_bytes' / real_of_int total_size_bytes * 100) w1
              in stream_chunks progress total_size_bytes path rest written_bytes' w2))"
| "stream_chunks progress total_size_bytes path (Cancelled # rest) written_bytes w =
     (Inl KeyboardInterrupt, w)"
| "stream_chunks progress total_size_bytes path (Read_failed reason # rest) written_bytes w =
     (Inl (ChunkedEncodingError reason), w)"

text \<open>The \<^verbatim>\<open>with\<close> block: the handle is closed on every way out of the loop.\<close>

definition write_body ::
  "nat option \<Rightarrow> int \<Rightarrow> string \<Rightarrow> chunk_event list \<Rightarrow> world \<Rightarrow> (exn + unit) \<times> world" where
  "write_body progress total_size_bytes output_path events w =
     (case open_wb output_path w of
        Inl e \<Rightarrow> (Inl e, w)
      | Inr w1 \<Rightarrow>
          (case stream_chunks progress total_size_bytes output_path events 0 w1 of
             (outcome, w2) \<Rightarrow> (outcome, file_close output_path w2)))"

definition content_length :: "response \<Rightarrow> exn + int" where
  "content_length response =
     (case headers response ''content-length'' of
        None \<Rightarrow> Inr 0
      | Some v \<Rightarrow> py_int v)"

definition stop_if_acquired :: "nat option \<Rightarrow> world \<Rightarrow> world" where
  "stop_if_acquired progress w = (case progress of None \<Rightarrow> w | Some progress_task \<Rightarrow> progress_stop w)"

fun is_keyboard_interrupt :: "exn \<Rightarrow> bool" where
  "is_keyboard_interrupt KeyboardInterrupt = True"
| "is_keyboard_interrupt e = False"

definition download_file :: "env \<Rightarrow> string \<Rightarrow> string \<Rightarrow> world \<Rightarrow> (exn + unit) \<times> world" where
  "download_file env url output_path w =
     (case get env url (no_kwargs\<lparr>stream := Some True\<rparr>) w of
        (Inl e, w1) \<Rightarrow> (Inl e, w1)
      | (Inr response, w1) \<Rightarrow>
          (case content_length response of
             Inl e \<Rightarrow> (Inl e, w1)
           | Inr total_size_bytes \<Rightarrow>
               (case (if total_size_bytes > 0
                      then (case progress_add_task [] (logger_progress w1) of
                              (progress_task, w') \<Rightarrow> (Some progress_task, w'))
                      else (None, w1)) of
                  (progress, w2) \<Rightarrow>
                    (case write_body progress total_size_bytes output_path
                            (iter_content response) w2 of
                       (Inl e, w3) \<Rightarrow>
                         (if is_keyboard_interrupt e then (Inl e, stop_if_acquired progress w3)
                          else (Inl e, w3))
                     | (Inr u, w3) \<Rightarrow> (Inr (), stop_if_acquired progress w3)))))"

subsection \<open>The wording of the specification\<close>

text \<open>
  The request line as the specification words it: the payload is whichever of \<^verbatim>\<open>json\<close>,
  \<^verbatim>\<open>data\<close>, \<^verbatim>\<open>params\<close> is present and non-empty, looked for in that order. This follows the
  specification's sentence, not the source, and is compared with \<open>log_request\<close> below.
\<close>

definition claimed_payload :: "kwargs \<Rightarrow> pyval option" where
  "claimed_payload kw =
     (case filter (\<lambda>d. d \<noteq> PNone \<and> d \<noteq> PDict [])
             (List.map_filter (kwargs_get kw) [''json'', ''data'', ''params'']) of
        [] \<Rightarrow> None
      | d # _ \<Rightarrow> Some d)"

definition claimed_request_line :: "string \<Rightarrow> string \<Rightarrow> kwargs \<Rightarrow> exn + string" where
  "claimed_request_line method url kw =
     (case claimed_payload kw of
        None \<Rightarrow> Inr (''--> '' @ upper method @ '' '' @ url)
      | Some d \<Rightarrow>
          (case json_dumps_indent4 d of
             Inl e \<Rightarrow> Inl e
           | Inr s \<Rightarrow> Inr (''--> '' @ upper method @ '' '' @ url @ '' with data:\<newline>'' @ s)))"

text \<open>
  The percentages the specification asks for: after each chunk,
  \<^verbatim>\<open>(bytes_written / total_size) * 100\<close>, starting from \<open>written\<close> bytes.
\<close>

definition reported :: "nat \<Rightarrow> int \<Rightarrow> int \<Rightarrow> bytes list \<Rightarrow> progress_event list" where
  "reported task tot written cs =
     map (\<lambda>k. Update task
                 (real_of_int (written + int (length (concat (take (Suc k) cs))))
                  / real_of_int tot * 100)) [0..<length cs]"

text \<open>
  A content-length value that is not numeric: it holds no decimal digit at all, or it holds
  a character that no integer literal contains (neither a digit, a sign, an underscore nor
  whitespace).
\<close>

definition non_numeric :: "string \<Rightarrow> bool" where
  "non_numeric v =
     ((\<forall>c\<in>set v. digit_value c = None)
      \<or> (\<exists>c\<in>set v. digit_value c = None \<and> c \<noteq> CHR ''+'' \<and> c \<noteq> CHR ''-'' \<and> c \<noteq> CHR ''_''
                     \<and> \<not> is_space c))"

subsection \<open>Auxiliary definitions\<close>

text \<open>The argument of \<open>py_int\<close> without its surrounding whitespace.\<close>

definition stripped :: "string \<Rightarrow> string" where
  "stripped s = rev (dropWhile is_space (rev (dropWhile is_space s)))"

subsection \<open>Example responses\<close>

text \<open>A response with a status code and a body text, without headers or streamed content.\<close>

definition example_response :: "int \<Rightarrow> string \<Rightarrow> response" where
  "example_response code body =
     \<lparr>status_code = code, body_text = body, headers = (\<lambda>name. None), iter_content = []\<rparr>"

text \<open>A successful response to a streamed download, with its headers and its chunk events.\<close>

definition example_download :: "(string \<times> string) list \<Rightarrow> chunk_event list \<Rightarrow> response" where
  "example_download hs events =
     \<lparr>status_code = 200, body_text = [], headers = map_of hs, iter_content = events\<rparr>"

section \<open>Properties\<close>

declare str_nat.simps [simp del]

subsection \<open>Auxiliary facts: the status check and the request line\<close>

lemma check_response_success:
  "200 \<le> status_code r \<Longrightarrow> status_code r < 300 \<Longrightarrow> check_response r flag w = (Inr (), w)"
  by (simp add: check_response_def response_raise_for_status_def)

lemma check_response_no_raise:
  "status_code r < 200 \<or> 300 \<le> status_code r \<Longrightarrow>
   check_response r False w = (Inr (), log_unsuccessful_response r w)"
  by (auto simp add: check_response_def)

lemma check_response_raise:
  "status_code r < 200 \<or> 300 \<le> status_code r \<Longrightarrow>
   check_response r True w =
     (if 400 \<le> status_code r \<and> status_code r < 600 then Inl (HTTPError r) else Inr (),
      log_unsuccessful_response r w)"
  by (auto simp add: check_response_def response_raise_for_status_def)

lemma unsuccessful_line:
  "log_unsuccessful_response r w =
     w\<lparr>debug_log := debug_log w @
        [''Request was not successful, status code '' @ str_int (status_code r) @ '', ''
         @ (if body_text r = [] then ''empty body'' else ''body:\<newline>'' @ body_text r)]\<rparr>"
  by (simp add: log_unsuccessful_response_def logger_debug_def)

lemma str_int_302: "str_int 302 = ''302''"
  by (simp add: str_int_def str_nat.simps)

lemma str_int_304: "str_int 304 = ''304''"
  by (simp add: str_int_def str_nat.simps)

lemma str_int_404: "str_int 404 = ''404''"
  by (simp add: str_int_def str_nat.simps)

lemma str_int_500: "str_int 500 = ''500''"
  by (simp add: str_int_def str_nat.simps)

lemma raise_follows_library_range:
  assumes "status_code r < 200 \<or> 300 \<le> status_code r"
      and "raise_for_status kw = None \<or> raise_for_status kw = Some True"
      and "log_request ''GET'' url kw w = (Inr (), w1)"
      and "requests_get env url (kw\<lparr>raise_for_status := None\<rparr>) = Inr r"
  shows "get env url kw w =
     (if 400 \<le> status_code r \<and> status_code r < 600 then Inl (HTTPError r) else Inr r,
      w1\<lparr>debug_log := debug_log w1 @
        [''Request was not successful, status code '' @ str_int (status_code r) @ '', ''
         @ (if body_text r = [] then ''empty body'' else ''body:\<newline>'' @ body_text r)]\<rparr>)"
proof -
  have flag: "(case raise_for_status kw of None \<Rightarrow> True | Some b \<Rightarrow> b) = True"
    using assms(2) by auto
  show ?thesis
    using assms(1,3,4)
    by (simp add: get_def pop_raise_for_status_def flag check_response_raise unsuccessful_line)
qed

lemma first_present:
  "(case List.map_filter (kwargs_get kw) [''json'', ''data'', ''params''] of [] \<Rightarrow> PNone | d # _ \<Rightarrow> d)
   = (case json kw of Some d \<Rightarrow> d
      | None \<Rightarrow> (case data kw of Some d \<Rightarrow> d
         | None \<Rightarrow> (case params kw of Some d \<Rightarrow> d | None \<Rightarrow> PNone)))"
  by (simp add: List.map_filter_simps kwargs_get_def split: option.splits)

lemma log_request_plain:
  "json kw = None \<Longrightarrow> data kw = None \<Longrightarrow> params kw = None \<Longrightarrow>
   log_request verb url kw w = (Inr (), logger_debug (''--> '' @ upper verb @ '' '' @ url) w)"
  unfolding log_request_def first_present by simp

lemma dumps_a1: "json_dumps_indent4 (PDict [(''a'', PInt 1)]) =
   Inr (''{\<newline>    '' @ [CHR 0x22] @ ''a'' @ [CHR 0x22] @ '': 1\<newline>}'')"
  by (simp add: json_dumps_indent4_def newline_indent_def json_string_def escape_char_def
      str_int_def str_nat.simps eval_nat_numeral)

lemma dumps_bytes: "json_dumps_indent4 (PBytes b) = Inl TypeError"
  by (simp add: json_dumps_indent4_def)

lemma log_request_unserialisable:
  "log_request verb url (no_kwargs\<lparr>data := Some (PBytes b)\<rparr>) w = (Inl TypeError, w)"
  unfolding log_request_def first_present
  by (simp add: no_kwargs_def dumps_bytes)

lemma upper_GET: "upper ''GET'' = ''GET''"
  by (simp add: upper_def upper_char_def)

lemma upper_get: "upper ''get'' = ''GET''"
  by (simp add: upper_def upper_char_def)

lemma upper_POST: "upper ''POST'' = ''POST''"
  by (simp add: upper_def upper_char_def)

lemma upper_put: "upper ''put'' = ''PUT''"
  by (simp add: upper_def upper_char_def)

lemma get_stream_ok:
  "200 \<le> status_code r \<Longrightarrow> status_code r < 300 \<Longrightarrow>
   get (constant_transport r) url (no_kwargs\<lparr>stream := Some True\<rparr>) w
     = (Inr r, logger_debug (''--> GET '' @ url) w)"
  by (simp add: get_def log_request_plain no_kwargs_def upper_GET pop_raise_for_status_def
      constant_transport_def check_response_success)

lemma example_download_ok:
  "get (constant_transport (example_download hs events)) url (no_kwargs\<lparr>stream := Some True\<rparr>) w
     = (Inr (example_download hs events), logger_debug (''--> GET '' @ url) w)"
  by (rule get_stream_ok) (simp_all add: example_download_def)

subsection \<open>Auxiliary facts: the chunk loop\<close>

lemma file_write_known:
  "files w path = Some content \<Longrightarrow>
   file_write path c w = w\<lparr>files := (files w)(path \<mapsto> content @ c)\<rparr>"
  by (simp add: file_write_def)

lemma files_same:
  "files w path = Some content \<Longrightarrow> w\<lparr>files := (files w)(path \<mapsto> content)\<rparr> = w"
proof -
  assume "files w path = Some content"
  then have "(files w)(path \<mapsto> content) = files w" by (simp add: fun_upd_idem_iff)
  then show ?thesis by simp
qed

lemma stream_chunks_prefix_none:
  "files w path = Some content \<Longrightarrow>
   stream_chunks None tot path (map Chunk cs @ rest) written w =
   stream_chunks None tot path rest written
     (w\<lparr>files := (files w)(path \<mapsto> content @ concat cs)\<rparr>)"
proof (induction cs arbitrary: w content)
  case Nil
  have "w\<lparr>files := (files w)(path \<mapsto> content)\<rparr> = w"
    by (rule files_same [OF Nil.prems])
  then show ?case
    by (simp only: list.map append_Nil concat.simps append_Nil2)
next
  case (Cons c cs)
  let ?w = "w\<lparr>files := (files w)(path \<mapsto> content @ c)\<rparr>"
  have known: "files ?w path = Some (content @ c)" by simp
  have "stream_chunks None tot path (map Chunk (c # cs) @ rest) written w
      = stream_chunks None tot path (map Chunk cs @ rest) written ?w"
    using Cons.prems by (simp add: file_write_known)
  also have "\<dots> = stream_chunks None tot path rest written
          (?w\<lparr>files := (files ?w)(path \<mapsto> (content @ c) @ concat cs)\<rparr>)"
    by (rule Cons.IH [OF known])
  also have "\<dots> = stream_chunks None tot path rest written
          (w\<lparr>files := (files w)(path \<mapsto> content @ concat (c # cs))\<rparr>)"
    by simp
  finally show ?case .
qed

lemma reported_Nil: "reported t tot written [] = []"
  by (simp add: reported_def)

lemma reported_Cons:
  "reported t tot written (c # cs) =
     Update t (real_of_int (written + int (length c)) / real_of_int tot * 100)
     # reported t tot (written + int (length c)) cs"
proof -
  have "[0..<length (c # cs)] = 0 # map Suc [0..<length cs]"
    by (simp add: upt_conv_Cons map_Suc_upt del: upt_Suc)
  then show ?thesis
    by (simp add: reported_def comp_def add.assoc del: upt_Suc)
qed

lemma count_reported: "count_list (reported t tot written cs) Stop = 0"
proof -
  have "Stop \<notin> set (reported t tot written cs)"
    by (auto simp add: reported_def)
  then show ?thesis by (simp add: count_list_0_iff)
qed

lemma reported_two:
  "length c1 = 512 \<Longrightarrow> length c2 = 512 \<Longrightarrow>
   reported t 1024 0 [c1, c2] = [Update t 50, Update t 100]"
  by (simp add: reported_Cons reported_Nil)

lemma stream_chunks_prefix_some:
  "files w path = Some content \<Longrightarrow>
   stream_chunks (Some t) tot path (map Chunk cs @ rest) written w =
   stream_chunks (Some t) tot path rest (written + int (length (concat cs)))
     (w\<lparr>files := (files w)(path \<mapsto> content @ concat cs),
        progress_log := progress_log w @ reported t tot written cs\<rparr>)"
proof (induction cs arbitrary: w content written)
  case Nil
  have "w\<lparr>files := (files w)(path \<mapsto> content), progress_log := progress_log w @ []\<rparr> = w"
    using files_same [OF Nil.prems] by simp
  moreover have "written + int (length ([] :: 8 word list)) = written"
    by simp
  ultimately show ?case
    by (simp only: list.map append_Nil concat.simps append_Nil2 reported_Nil)
next
  case (Cons c cs)
  let ?u = "Update t (real_of_int (written + int (length c)) / real_of_int tot * 100)"
  let ?w = "w\<lparr>files := (files w)(path \<mapsto> content @ c), progress_log := progress_log w @ [?u]\<rparr>"
  have known: "files ?w path = Some (content @ c)" by simp
  have "stream_chunks (Some t) tot path (map Chunk (c # cs) @ rest) written w
      = stream_chunks (Some t) tot path (map Chunk cs @ rest) (written + int (length c)) ?w"
    using Cons.prems by (simp add: file_write_known progress_update_def Let_def)
  also have "\<dots> = stream_chunks (Some t) tot path rest
          (written + int (length c) + int (length (concat cs)))
          (?w\<lparr>files := (files ?w)(path \<mapsto> (content @ c) @ concat cs),
              progress_log := progress_log ?w @ reported t tot (written + int (length c)) cs\<rparr>)"
    by (rule Cons.IH [OF known])
  also have "\<dots> = stream_chunks (Some t) tot path rest
          (written + int (length (concat (c # cs))))
          (w\<lparr>files := (files w)(path \<mapsto> content @ concat (c # cs)),
             progress_log := progress_log w @ reported t tot written (c # cs)\<rparr>)"
    by (simp add: reported_Cons add.assoc)
  finally show ?case .
qed

lemma stream_chunks_prefix:
  "files w path = Some content \<Longrightarrow>
   stream_chunks p tot path (map Chunk cs @ rest) written w =
   stream_chunks p tot path rest
     (case p of None \<Rightarrow> written | Some t \<Rightarrow> written + int (length (concat cs)))
     (w\<lparr>files := (files w)(path \<mapsto> content @ concat cs),
        progress_log := progress_log w
          @ (case p of None \<Rightarrow> [] | Some t \<Rightarrow> reported t tot written cs)\<rparr>)"
proof (cases p)
  case None
  assume "files w path = Some content"
  from stream_chunks_prefix_none [OF this, of tot cs rest written]
  show ?thesis using None by simp
next
  case (Some t)
  assume "files w path = Some content"
  from stream_chunks_prefix_some [OF this, of t tot cs rest written]
  show ?thesis using Some by simp
qed

lemma stream_chunks_keeps:
  "count_list (progress_log (snd (stream_chunks p tot path evs written w))) Stop
     = count_list (progress_log w) Stop
   \<and> open_handles (snd (stream_chunks p tot path evs written w)) = open_handles w
   \<and> debug_log (snd (stream_chunks p tot path evs written w)) = debug_log w"
proof (induction p tot path evs written w rule: stream_chunks.induct)
  case (2 progress total_size_bytes path chunk rest written_bytes w)
  then show ?case
    by (cases progress) (simp_all add: file_write_def progress_update_def Let_def)
qed simp_all

lemma stream_chunks_outcome:
  "fst (stream_chunks p tot path evs written w) = Inr ()
   \<or> fst (stream_chunks p tot path evs written w) = Inl KeyboardInterrupt
   \<or> (\<exists>reason. fst (stream_chunks p tot path evs written w) = Inl (ChunkedEncodingError reason))"
proof (induction p tot path evs written w rule: stream_chunks.induct)
  case (2 progress total_size_bytes path chunk rest written_bytes w)
  then show ?case
    by (cases progress) (simp_all add: Let_def)
qed simp_all

lemma stream_chunks_none_progress:
  "progress_log (snd (stream_chunks None tot path evs written w)) = progress_log w"
proof (induction evs arbitrary: w)
  case Nil
  then show ?case by simp
next
  case (Cons ev evs)
  then show ?case by (cases ev) (simp_all add: file_write_def)
qed

subsection \<open>Auxiliary facts: the body of the download\<close>

lemma write_body_prefix:
  assumes "path \<notin> set (unwritable w)"
      and "\<And>n w'. stream_chunks p tot path rest n w' = (out, w')"
  shows "write_body p tot path (map Chunk cs @ rest) w =
     (out, w\<lparr>files := (files w)(path \<mapsto> concat cs),
              progress_log := progress_log w
                @ (case p of None \<Rightarrow> [] | Some t \<Rightarrow> reported t tot 0 cs)\<rparr>)"
proof -
  let ?w = "w\<lparr>files := (files w)(path \<mapsto> []), open_handles := path # open_handles w\<rparr>"
  have opened: "open_wb path w = Inr ?w"
    using assms(1) by (simp add: open_wb_def)
  have "files ?w path = Some []" by simp
  from stream_chunks_prefix [OF this, of p tot cs rest 0]
  have "stream_chunks p tot path (map Chunk cs @ rest) 0 ?w =
     (out, ?w\<lparr>files := (files ?w)(path \<mapsto> [] @ concat cs),
        progress_log := progress_log ?w
          @ (case p of None \<Rightarrow> [] | Some t \<Rightarrow> reported t tot 0 cs)\<rparr>)"
    by (simp add: assms(2))
  then show ?thesis
    by (simp add: write_body_def opened file_close_def)
qed

lemma write_body_complete:
  "path \<notin> set (unwritable w) \<Longrightarrow>
   write_body p tot path (map Chunk cs) w =
     (Inr (), w\<lparr>files := (files w)(path \<mapsto> concat cs),
              progress_log := progress_log w
                @ (case p of None \<Rightarrow> [] | Some t \<Rightarrow> reported t tot 0 cs)\<rparr>)"
  using write_body_prefix [of path w p tot "[]" "Inr ()" cs] by simp

lemma write_body_cancelled:
  "path \<notin> set (unwritable w) \<Longrightarrow>
   write_body p tot path (map Chunk cs @ Cancelled # rest) w =
     (Inl KeyboardInterrupt, w\<lparr>files := (files w)(path \<mapsto> concat cs),
              progress_log := progress_log w
                @ (case p of None \<Rightarrow> [] | Some t \<Rightarrow> reported t tot 0 cs)\<rparr>)"
  using write_body_prefix [of path w p tot "Cancelled # rest" "Inl KeyboardInterrupt" cs] by simp

lemma write_body_read_failed:
  "path \<notin> set (unwritable w) \<Longrightarrow>
   write_body p tot path (map Chunk cs @ Read_failed reason # rest) w =
     (Inl (ChunkedEncodingError reason), w\<lparr>files := (files w)(path \<mapsto> concat cs),
              progress_log := progress_log w
                @ (case p of None \<Rightarrow> [] | Some t \<Rightarrow> reported t tot 0 cs)\<rparr>)"
  using write_body_prefix [of path w p tot "Read_failed reason # rest"
          "Inl (ChunkedEncodingError reason)" cs] by simp

lemma write_body_unwritable:
  "path \<in> set (unwritable w) \<Longrightarrow> write_body p tot path evs w = (Inl (OSError path), w)"
  by (simp add: write_body_def open_wb_def)

lemma write_body_keeps:
  "count_list (progress_log (snd (write_body p tot path evs w))) Stop
     = count_list (progress_log w) Stop
   \<and> open_handles (snd (write_body p tot path evs w)) = open_handles w
   \<and> debug_log (snd (write_body p tot path evs w)) = debug_log w"
proof (cases "path \<in> set (unwritable w)")
  case True
  then show ?thesis by (simp add: write_body_def open_wb_def)
next
  case False
  let ?w = "w\<lparr>files := (files w)(path \<mapsto> []), open_handles := path # open_handles w\<rparr>"
  have opened: "open_wb path w = Inr ?w"
    using False by (simp add: open_wb_def)
  show ?thesis
    using stream_chunks_keeps [of p tot path evs 0 ?w]
    by (simp add: write_body_def opened file_close_def split_beta)
qed

lemma write_body_outcome:
  "fst (write_body p tot path evs w) = Inr ()
   \<or> fst (write_body p tot path evs w) = Inl KeyboardInterrupt
   \<or> (\<exists>reason. fst (write_body p tot path evs w) = Inl (ChunkedEncodingError reason))
   \<or> fst (write_body p tot path evs w) = Inl (OSError path)"
proof (cases "path \<in> set (unwritable w)")
  case True
  then show ?thesis by (simp add: write_body_def open_wb_def)
next
  case False
  let ?w = "w\<lparr>files := (files w)(path \<mapsto> []), open_handles := path # open_handles w\<rparr>"
  have opened: "open_wb path w = Inr ?w"
    using False by (simp add: open_wb_def)
  show ?thesis
    using stream_chunks_outcome [of p tot path evs 0 ?w]
    by (auto simp add: write_body_def opened split_beta)
qed

lemma write_body_none_progress:
  "progress_log (snd (write_body None tot path evs w)) = progress_log w"
proof (cases "path \<in> set (unwritable w)")
  case True
  then show ?thesis by (simp add: write_body_def open_wb_def)
next
  case False
  then show ?thesis
    using stream_chunks_none_progress
            [of tot path evs 0 "w\<lparr>files := (files w)(path \<mapsto> []), open_handles := path # open_handles w\<rparr>"]
    by (simp add: write_body_def open_wb_def file_close_def split_beta)
qed

lemma acquire_progress:
  "progress_add_task [] (logger_progress w) =
     (length (filter is_add_task (progress_log w)),
      w\<lparr>progress_log := progress_log w
           @ [Progress_created, Add_task [] (length (filter is_add_task (progress_log w)))]\<rparr>)"
  by (simp add: progress_add_task_def logger_progress_def is_add_task_def Let_def)

lemma download_file_with_progress:
  assumes "get env url (no_kwargs\<lparr>stream := Some True\<rparr>) w = (Inr r, w1)"
      and "content_length r = Inr tot" and "0 < tot"
  shows "download_file env url path w =
     (case write_body (Some (length (filter is_add_task (progress_log w1)))) tot path (iter_content r)
             (w1\<lparr>progress_log := progress_log w1
                @ [Progress_created, Add_task [] (length (filter is_add_task (progress_log w1)))]\<rparr>) of
        (Inl e, w3) \<Rightarrow> (if is_keyboard_interrupt e then (Inl e, progress_stop w3) else (Inl e, w3))
      | (Inr u, w3) \<Rightarrow> (Inr (), progress_stop w3))"
  using assms
  by (auto simp add: download_file_def acquire_progress stop_if_acquired_def
      split: prod.splits sum.splits)

lemma download_file_without_progress:
  assumes "get env url (no_kwargs\<lparr>stream := Some True\<rparr>) w = (Inr r, w1)"
      and "content_length r = Inr tot" and "tot \<le> 0"
  shows "download_file env url path w =
     (case write_body None tot path (iter_content r) w1 of
        (Inl e, w3) \<Rightarrow> (Inl e, w3)
      | (Inr u, w3) \<Rightarrow> (Inr (), w3))"
  using assms
  by (auto simp add: download_file_def stop_if_acquired_def split: prod.splits sum.splits)

subsection \<open>Auxiliary facts: the content length\<close>

lemma content_length_1024: "headers r ''content-length'' = Some ''1024'' \<Longrightarrow> content_length r = Inr 1024"
  by (simp add: content_length_def py_int_def is_space_def digit_value_def)

lemma content_length_zero:
  "headers r ''content-length'' = None \<or> headers r ''content-length'' = Some ''0'' \<Longrightarrow>
   content_length r = Inr 0"
  by (auto simp add: content_length_def py_int_def is_space_def digit_value_def)

lemma stripped_subset: "set (stripped s) \<subseteq> set s"
proof -
  have "set (dropWhile is_space (rev (dropWhile is_space s))) \<subseteq> set (rev (dropWhile is_space s))"
    by (meson set_dropWhileD subsetI)
  moreover have "set (dropWhile is_space s) \<subseteq> set s"
    by (meson set_dropWhileD subsetI)
  ultimately show ?thesis by (auto simp add: stripped_def)
qed

lemma stripped_covers:
  assumes "c \<in> set s" and "\<not> is_space c"
  shows "c \<in> set (stripped s)"
proof -
  have split: "c \<in> set xs \<Longrightarrow> c \<in> set (dropWhile is_space xs)" for xs
    using assms(2) by (induction xs) auto
  from split [OF assms(1)] have "c \<in> set (rev (dropWhile is_space s))" by simp
  from split [OF this] show ?thesis by (simp add: stripped_def)
qed

lemma parse_digits_chars:
  "parse_digits acc cs = Some n \<Longrightarrow> c \<in> set cs \<Longrightarrow> digit_value c \<noteq> None \<or> c = CHR ''_''"
proof (induction acc cs rule: parse_digits.induct)
  case (1 acc)
  then show ?case by simp
next
  case (2 acc x xs)
  then show ?case
    by (auto split: option.splits if_splits list.splits)
qed

lemma py_int_unfold:
  "py_int s =
     (case (case stripped s of c # cs \<Rightarrow> if c = CHR ''-'' \<or> c = CHR ''+'' then cs else stripped s
            | [] \<Rightarrow> []) of
        [] \<Rightarrow> Inl ValueError
      | c # cs \<Rightarrow>
          (case digit_value c of
             None \<Rightarrow> Inl ValueError
           | Some d \<Rightarrow>
               (case parse_digits d cs of
                  None \<Rightarrow> Inl ValueError
                | Some n \<Rightarrow>
                    Inr (if (case stripped s of c # _ \<Rightarrow> c = CHR ''-'' | [] \<Rightarrow> False)
                         then - int n else int n))))"
  unfolding py_int_def stripped_def Let_def by (rule refl)

lemma py_int_no_digit:
  assumes "\<forall>c\<in>set v. digit_value c = None"
  shows "py_int v = Inl ValueError"
proof -
  have none: "\<And>c. c \<in> set (stripped v) \<Longrightarrow> digit_value c = None"
    using assms stripped_subset by blast
  show ?thesis
  proof (cases "stripped v")
    case Nil
    then show ?thesis by (simp add: py_int_unfold)
  next
    case (Cons c cs)
    show ?thesis
    proof (cases cs)
      case Nil
      then show ?thesis using Cons none [of c] by (simp add: py_int_unfold)
    next
      case (Cons d ds)
      then show ?thesis
        using \<open>stripped v = c # cs\<close> none [of c] none [of d] by (simp add: py_int_unfold)
    qed
  qed
qed

lemma py_int_chars:
  assumes "py_int v = Inr n" and "c \<in> set v"
  shows "digit_value c \<noteq> None \<or> c = CHR ''+'' \<or> c = CHR ''-'' \<or> c = CHR ''_'' \<or> is_space c"
proof (cases "is_space c")
  case True
  then show ?thesis by simp
next
  case False
  with assms(2) have mem: "c \<in> set (stripped v)" by (rule stripped_covers)
  then obtain x xs where sv: "stripped v = x # xs" by (cases "stripped v") auto
  show ?thesis
  proof (cases "x = CHR ''-'' \<or> x = CHR ''+''")
    case True
    then obtain y ys d m where "xs = y # ys" "digit_value y = Some d" "parse_digits d ys = Some m"
      using assms(1) sv by (auto simp add: py_int_unfold split: list.splits option.splits)
    then show ?thesis
      using mem sv True parse_digits_chars [of d ys m c] by auto
  next
    case False
    then obtain d m where "digit_value x = Some d" "parse_digits d xs = Some m"
      using assms(1) sv by (auto simp add: py_int_unfold split: list.splits option.splits)
    then show ?thesis
      using mem sv parse_digits_chars [of d xs m c] by auto
  qed
qed

lemma py_int_non_numeric: "non_numeric v \<Longrightarrow> py_int v = Inl ValueError"
proof -
  assume nn: "non_numeric v"
  show ?thesis
  proof (cases "\<forall>c\<in>set v. digit_value c = None")
    case True
    then show ?thesis by (rule py_int_no_digit)
  next
    case False
    with nn obtain c where c: "c \<in> set v" "digit_value c = None" "c \<noteq> CHR ''+''" "c \<noteq> CHR ''-''"
        "c \<noteq> CHR ''_''" "\<not> is_space c"
      by (auto simp add: non_numeric_def)
    show ?thesis
    proof (cases "py_int v")
      case (Inl e)
      then show ?thesis
        by (auto simp add: py_int_unfold split: list.splits option.splits if_splits)
    next
      case (Inr n)
      from py_int_chars [OF this c(1)] c show ?thesis by simp
    qed
  qed
qed

subsection \<open>Unsuccessful responses with raising enabled\<close>

text \<open>
  C1. For a request through \<^verbatim>\<open>get\<close>, \<^verbatim>\<open>post\<close> or \<^verbatim>\<open>request\<close> whose response has a status
  code outside [200, 300) and whose \<^verbatim>\<open>raise_for_status\<close> option is absent or true, the
  unsuccessful-response debug log is emitted and an error carrying the response is raised.
  The docstrings of the three methods and of \<^verbatim>\<open>_check_response\<close> promise the error for every
  unsuccessful response, and \<^verbatim>\<open>_check_response\<close> itself takes every status code outside
  [200, 300) for unsuccessful when it logs. The raise is left to
  \<^verbatim>\<open>response.raise_for_status()\<close>, which covers 400 to 599 only. On a 304 response the
  three methods emit the line \<^verbatim>\<open>Request was not successful, status code 304, empty body\<close>
  and then return the response: no error is raised.
\<close>

theorem not_modified_logged_but_not_raised:
  "get (constant_transport (example_response 304 [])) ''http://x'' no_kwargs empty_world
     = (Inr (example_response 304 []),
        \<lparr>debug_log = [''--> GET http://x'',
                       ''Request was not successful, status code 304, empty body''],
         progress_log = [], files = (\<lambda>p. None), open_handles = [], unwritable = []\<rparr>)
   \<and> post (constant_transport (example_response 304 [])) ''http://x''
        (no_kwargs\<lparr>raise_for_status := Some True\<rparr>) empty_world
     = (Inr (example_response 304 []),
        \<lparr>debug_log = [''--> POST http://x'',
                       ''Request was not successful, status code 304, empty body''],
         progress_log = [], files = (\<lambda>p. None), open_handles = [], unwritable = []\<rparr>)
   \<and> request (constant_transport (example_response 304 [])) ''GET'' ''http://x'' no_kwargs
        empty_world
     = (Inr (example_response 304 []),
        \<lparr>debug_log = [''--> GET http://x'',
                       ''Request was not successful, status code 304, empty body''],
         progress_log = [], files = (\<lambda>p. None), open_handles = [], unwritable = []\<rparr>)"
  by (simp add: get_def post_def request_def log_request_plain no_kwargs_def upper_GET upper_POST
      pop_raise_for_status_def constant_transport_def check_response_raise unsuccessful_line
      example_response_def str_int_304 logger_debug_def empty_world_def)

subsection \<open>The content-length header\<close>

text \<open>
  C2, as amended. In a \<^verbatim>\<open>download_file\<close> call whose streamed GET returned the response
  \<open>r\<close>: a missing \<^verbatim>\<open>content-length\<close> header is a total size of 0, the call raises no
  \<^verbatim>\<open>ValueError\<close>, no progress indicator is touched, and the download proceeds: the output
  file is opened (or \<^verbatim>\<open>OSError\<close> is raised for a path that cannot be written) and receives
  every chunk of the stream, up to its end, a cancellation or a read failure. A value that
  is not numeric raises \<^verbatim>\<open>ValueError\<close> to the caller, before a progress indicator is
  acquired or the output file is opened.
\<close>

theorem download_file_content_length_parsing:
  assumes "get env url (no_kwargs\<lparr>stream := Some True\<rparr>) w = (Inr r, w1)"
  shows "(headers r ''content-length'' = None \<longrightarrow>
            content_length r = Inr 0
            \<and> fst (download_file env url output_path w) \<noteq> Inl ValueError
            \<and> progress_log (snd (download_file env url output_path w)) = progress_log w1
            \<and> (output_path \<in> set (unwritable w1) \<longrightarrow>
                 download_file env url output_path w = (Inl (OSError output_path), w1))
            \<and> (output_path \<notin> set (unwritable w1) \<longrightarrow>
                 (iter_content r = map Chunk cs \<longrightarrow>
                    download_file env url output_path w =
                      (Inr (), w1\<lparr>files := (files w1)(output_path \<mapsto> concat cs)\<rparr>))
                 \<and> (iter_content r = map Chunk cs @ Cancelled # rest \<longrightarrow>
                    download_file env url output_path w =
                      (Inl KeyboardInterrupt,
                       w1\<lparr>files := (files w1)(output_path \<mapsto> concat cs)\<rparr>))
                 \<and> (iter_content r = map Chunk cs @ Read_failed reason # rest \<longrightarrow>
                    download_file env url output_path w =
                      (Inl (ChunkedEncodingError reason),
                       w1\<lparr>files := (files w1)(output_path \<mapsto> concat cs)\<rparr>))))
       \<and> (\<forall>v. headers r ''content-length'' = Some v \<and> non_numeric v \<longrightarrow>
            download_file env url output_path w = (Inl ValueError, w1))"
proof -
  have missing: "content_length r = Inr 0
            \<and> fst (download_file env url output_path w) \<noteq> Inl ValueError
            \<and> progress_log (snd (download_file env url output_path w)) = progress_log w1
            \<and> (output_path \<in> set (unwritable w1) \<longrightarrow>
                 download_file env url output_path w = (Inl (OSError output_path), w1))
            \<and> (output_path \<notin> set (unwritable w1) \<longrightarrow>
                 (iter_content r = map Chunk cs \<longrightarrow>
                    download_file env url output_path w =
                      (Inr (), w1\<lparr>files := (files w1)(output_path \<mapsto> concat cs)\<rparr>))
                 \<and> (iter_content r = map Chunk cs @ Cancelled # rest \<longrightarrow>
                    download_file env url output_path w =
                      (Inl KeyboardInterrupt,
                       w1\<lparr>files := (files w1)(output_path \<mapsto> concat cs)\<rparr>))
                 \<and> (iter_content r = map Chunk cs @ Read_failed reason # rest \<longrightarrow>
                    download_file env url output_path w =
                      (Inl (ChunkedEncodingError reason),
                       w1\<lparr>files := (files w1)(output_path \<mapsto> concat cs)\<rparr>)))"
    if "headers r ''content-length'' = None"
  proof -
    have cl: "content_length r = Inr 0" using that by (simp add: content_length_def)
    note unfolded = download_file_without_progress [OF assms cl, of output_path]
    obtain out w3 where wb: "write_body None 0 output_path (iter_content r) w1 = (out, w3)"
      by (cases "write_body None 0 output_path (iter_content r) w1") auto
    have dl: "download_file env url output_path w =
        (case out of Inl e \<Rightarrow> (Inl e, w3) | Inr u \<Rightarrow> (Inr (), w3))"
      using unfolded wb by (simp split: sum.splits)
    have "out \<noteq> Inl ValueError"
      using write_body_outcome [of None 0 output_path "iter_content r" w1] wb by auto
    moreover have "progress_log w3 = progress_log w1"
      using write_body_none_progress [of 0 output_path "iter_content r" w1] wb by simp
    ultimately have first: "fst (download_file env url output_path w) \<noteq> Inl ValueError
        \<and> progress_log (snd (download_file env url output_path w)) = progress_log w1"
      using dl by (cases out) auto
    have closed: "download_file env url output_path w = (Inl (OSError output_path), w1)"
      if "output_path \<in> set (unwritable w1)"
      using unfolded write_body_unwritable [OF that, of None 0 "iter_content r"] by simp
    have complete: "download_file env url output_path w =
          (Inr (), w1\<lparr>files := (files w1)(output_path \<mapsto> concat cs)\<rparr>)"
      if "output_path \<notin> set (unwritable w1)" and "iter_content r = map Chunk cs"
      using unfolded write_body_complete [OF that(1), of None 0 cs] by (simp add: that(2))
    have cancelled: "download_file env url output_path w =
          (Inl KeyboardInterrupt, w1\<lparr>files := (files w1)(output_path \<mapsto> concat cs)\<rparr>)"
      if "output_path \<notin> set (unwritable w1)"
        and "iter_content r = map Chunk cs @ Cancelled # rest"
      using unfolded write_body_cancelled [OF that(1), of None 0 cs rest] by (simp add: that(2))
    have failed: "download_file env url output_path w =
          (Inl (ChunkedEncodingError reason),
           w1\<lparr>files := (files w1)(output_path \<mapsto> concat cs)\<rparr>)"
      if "output_path \<notin> set (unwritable w1)"
        and "iter_content r = map Chunk cs @ Read_failed reason # rest"
      using unfolded write_body_read_failed [OF that(1), of None 0 cs reason rest]
      by (simp add: that(2))
    from cl first closed complete cancelled failed show ?thesis by blast
  qed
  have bad: "download_file env url output_path w = (Inl ValueError, w1)"
    if "headers r ''content-length'' = Some v" and "non_numeric v" for v
    using that assms by (simp add: download_file_def content_length_def py_int_non_numeric)
  from missing bad show ?thesis by blast
qed

text \<open>
  A response without the header, whose two chunks reach the file, and one with the value
  \<^verbatim>\<open>abc\<close>, which leaves no file.
\<close>

theorem download_file_content_length_parsing_witness:
  "content_length (example_download [] [Chunk [1, 2], Chunk [3]]) = Inr 0
   \<and> download_file (constant_transport (example_download [] [Chunk [1, 2], Chunk [3]]))
        ''http://x/f'' ''out.bin'' empty_world
      = (Inr (),
         \<lparr>debug_log = [''--> GET http://x/f''], progress_log = [],
          files = [''out.bin'' \<mapsto> [1, 2, 3]], open_handles = [], unwritable = []\<rparr>)
   \<and> download_file (constant_transport (example_download [(''content-length'', ''abc'')] [Chunk [1]]))
        ''http://x/f'' ''out.bin'' empty_world
      = (Inl ValueError,
         \<lparr>debug_log = [''--> GET http://x/f''], progress_log = [],
          files = (\<lambda>p. None), open_handles = [], unwritable = []\<rparr>)"
  using download_file_content_length_parsing
          [where env = "constant_transport (example_download [] [Chunk [1, 2], Chunk [3]])"
             and url = "''http://x/f''" and w = empty_world
             and r = "example_download [] [Chunk [1, 2], Chunk [3]]"
             and ?w1.0 = "logger_debug ''--> GET http://x/f'' empty_world"
             and output_path = "''out.bin''" and cs = "[[1, 2], [3]]"]
        download_file_content_length_parsing
          [where env = "constant_transport (example_download [(''content-length'', ''abc'')] [Chunk [1]])"
             and url = "''http://x/f''" and w = empty_world
             and r = "example_download [(''content-length'', ''abc'')] [Chunk [1]]"
             and ?w1.0 = "logger_debug ''--> GET http://x/f'' empty_world"
             and output_path = "''out.bin''"]
  by (simp add: example_download_ok)
     (simp add: example_download_def logger_debug_def empty_world_def non_numeric_def
        digit_value_def)

text \<open>
  The claim as first stated fails on the header value \<^verbatim>\<open>abc\<close>: the download does not
  proceed, \<^verbatim>\<open>int\<close> raises.
\<close>

theorem non_numeric_content_length_counterexample:
  "headers (example_download [(''content-length'', ''abc'')] [Chunk [1]]) ''content-length''
     = Some ''abc''
   \<and> download_file (constant_transport (example_download [(''content-length'', ''abc'')] [Chunk [1]]))
        ''http://x/f'' ''out.bin'' empty_world
      = (Inl ValueError, logger_debug ''--> GET http://x/f'' empty_world)"
proof -
  have "py_int ''abc'' = Inl ValueError"
    by (simp add: py_int_def is_space_def digit_value_def)
  then show ?thesis
    by (simp add: download_file_def example_download_ok content_length_def)
       (simp add: example_download_def)
qed

subsection \<open>Unsuccessful responses with raising disabled\<close>

text \<open>
  C3. For a request through \<^verbatim>\<open>get\<close>, \<^verbatim>\<open>post\<close> or \<^verbatim>\<open>request\<close> whose response has a status
  code outside [200, 300) and whose \<^verbatim>\<open>raise_for_status\<close> option is explicitly false, the
  unsuccessful-response debug log is emitted (one more debug line, with the status code and
  the body text or the words \<^verbatim>\<open>empty body\<close>, after the request line), no error is raised,
  and the response is returned as the transport gave it.
\<close>

theorem unsuccessful_suppressed:
  assumes "status_code r < 200 \<or> 300 \<le> status_code r" and "raise_for_status kw = Some False"
  shows "(log_request ''GET'' url kw w = (Inr (), w1) \<longrightarrow>
           requests_get env url (kw\<lparr>raise_for_status := None\<rparr>) = Inr r \<longrightarrow>
           get env url kw w =
             (Inr r,
              w1\<lparr>debug_log := debug_log w1 @
                [''Request was not successful, status code '' @ str_int (status_code r) @ '', ''
                 @ (if body_text r = [] then ''empty body''
                    else ''body:\<newline>'' @ body_text r)]\<rparr>))
       \<and> (log_request ''POST'' url kw w = (Inr (), w1) \<longrightarrow>
           requests_post env url (kw\<lparr>raise_for_status := None\<rparr>) = Inr r \<longrightarrow>
           post env url kw w =
             (Inr r,
              w1\<lparr>debug_log := debug_log w1 @
                [''Request was not successful, status code '' @ str_int (status_code r) @ '', ''
                 @ (if body_text r = [] then ''empty body''
                    else ''body:\<newline>'' @ body_text r)]\<rparr>))
       \<and> (log_request verb url kw w = (Inr (), w1) \<longrightarrow>
           requests_request env verb url (kw\<lparr>raise_for_status := None\<rparr>) = Inr r \<longrightarrow>
           request env verb url kw w =
             (Inr r,
              w1\<lparr>debug_log := debug_log w1 @
                [''Request was not successful, status code '' @ str_int (status_code r) @ '', ''
                 @ (if body_text r = [] then ''empty body''
                    else ''body:\<newline>'' @ body_text r)]\<rparr>))"
  using assms
  by (simp add: get_def post_def request_def pop_raise_for_status_def check_response_no_raise
      unsuccessful_line)

text \<open>A 404 through \<^verbatim>\<open>get\<close>, a 500 through \<^verbatim>\<open>post\<close>, a 302 through \<^verbatim>\<open>request\<close>.\<close>

theorem unsuccessful_suppressed_witness:
  "get (constant_transport (example_response 404 ''gone'')) ''http://x''
        (no_kwargs\<lparr>raise_for_status := Some False\<rparr>) empty_world
     = (Inr (example_response 404 ''gone''),
        \<lparr>debug_log = [''--> GET http://x'',
                       ''Request was not successful, status code 404, body:\<newline>gone''],
         progress_log = [], files = (\<lambda>p. None), open_handles = [], unwritable = []\<rparr>)
   \<and> post (constant_transport (example_response 500 [])) ''http://x''
        (no_kwargs\<lparr>raise_for_status := Some False\<rparr>) empty_world
     = (Inr (example_response 500 []),
        \<lparr>debug_log = [''--> POST http://x'',
                       ''Request was not successful, status code 500, empty body''],
         progress_log = [], files = (\<lambda>p. None), open_handles = [], unwritable = []\<rparr>)
   \<and> request (constant_transport (example_response 302 [])) ''put'' ''http://x''
        (no_kwargs\<lparr>raise_for_status := Some False\<rparr>) empty_world
     = (Inr (example_response 302 []),
        \<lparr>debug_log = [''--> PUT http://x'',
                       ''Request was not successful, status code 302, empty body''],
         progress_log = [], files = (\<lambda>p. None), open_handles = [], unwritable = []\<rparr>)"
  using unsuccessful_suppressed
          [where r = "example_response 404 ''gone''" and url = "''http://x''"
             and kw = "no_kwargs\<lparr>raise_for_status := Some False\<rparr>"
             and w = empty_world and ?w1.0 = "logger_debug ''--> GET http://x'' empty_world"
             and env = "constant_transport (example_response 404 ''gone'')" and verb = "''get''"]
        unsuccessful_suppressed
          [where r = "example_response 500 []" and url = "''http://x''"
             and kw = "no_kwargs\<lparr>raise_for_status := Some False\<rparr>"
             and w = empty_world and ?w1.0 = "logger_debug ''--> POST http://x'' empty_world"
             and env = "constant_transport (example_response 500 [])" and verb = "''post''"]
        unsuccessful_suppressed
          [where r = "example_response 302 []" and url = "''http://x''"
             and kw = "no_kwargs\<lparr>raise_for_status := Some False\<rparr>"
             and w = empty_world and ?w1.0 = "logger_debug ''--> PUT http://x'' empty_world"
             and env = "constant_transport (example_response 302 [])" and verb = "''put''"]
  by (simp add: log_request_plain no_kwargs_def upper_GET upper_POST upper_put
      constant_transport_def example_response_def str_int_404 str_int_500 str_int_302
      logger_debug_def empty_world_def)

subsection \<open>Successful responses\<close>

text \<open>
  C4. For a request through \<^verbatim>\<open>get\<close>, \<^verbatim>\<open>post\<close> or \<^verbatim>\<open>request\<close> whose response has a status
  code in [200, 300), the response is returned and the world is the one the request line
  left: no unsuccessful-response log, no error, whatever the \<^verbatim>\<open>raise_for_status\<close> option
  holds.
\<close>

theorem success_no_log_no_error:
  assumes "200 \<le> status_code r" and "status_code r < 300"
  shows "(log_request ''GET'' url kw w = (Inr (), w1) \<longrightarrow>
           requests_get env url (kw\<lparr>raise_for_status := None\<rparr>) = Inr r \<longrightarrow>
           get env url kw w = (Inr r, w1))
       \<and> (log_request ''POST'' url kw w = (Inr (), w1) \<longrightarrow>
           requests_post env url (kw\<lparr>raise_for_status := None\<rparr>) = Inr r \<longrightarrow>
           post env url kw w = (Inr r, w1))
       \<and> (log_request verb url kw w = (Inr (), w1) \<longrightarrow>
           requests_request env verb url (kw\<lparr>raise_for_status := None\<rparr>) = Inr r \<longrightarrow>
           request env verb url kw w = (Inr r, w1))"
  using assms
  by (simp add: get_def post_def request_def pop_raise_for_status_def check_response_success)

text \<open>The option absent, false and true.\<close>

theorem success_no_log_no_error_witness:
  "get (constant_transport (example_response 200 ''ok'')) ''http://x'' no_kwargs empty_world
     = (Inr (example_response 200 ''ok''), logger_debug ''--> GET http://x'' empty_world)
   \<and> post (constant_transport (example_response 204 [])) ''http://x''
        (no_kwargs\<lparr>raise_for_status := Some False\<rparr>) empty_world
     = (Inr (example_response 204 []), logger_debug ''--> POST http://x'' empty_world)
   \<and> request (constant_transport (example_response 299 ''ok'')) ''put'' ''http://x''
        (no_kwargs\<lparr>raise_for_status := Some True\<rparr>) empty_world
     = (Inr (example_response 299 ''ok''), logger_debug ''--> PUT http://x'' empty_world)"
  using success_no_log_no_error
          [where r = "example_response 200 ''ok''" and url = "''http://x''" and kw = no_kwargs
             and w = empty_world and ?w1.0 = "logger_debug ''--> GET http://x'' empty_world"
             and env = "constant_transport (example_response 200 ''ok'')" and verb = "''get''"]
        success_no_log_no_error
          [where r = "example_response 204 []" and url = "''http://x''"
             and kw = "no_kwargs\<lparr>raise_for_status := Some False\<rparr>"
             and w = empty_world and ?w1.0 = "logger_debug ''--> POST http://x'' empty_world"
             and env = "constant_transport (example_response 204 [])" and verb = "''post''"]
        success_no_log_no_error
          [where r = "example_response 299 ''ok''" and url = "''http://x''"
             and kw = "no_kwargs\<lparr>raise_for_status := Some True\<rparr>"
             and w = empty_world and ?w1.0 = "logger_debug ''--> PUT http://x'' empty_world"
             and env = "constant_transport (example_response 299 ''ok'')" and verb = "''put''"]
  by (simp add: log_request_plain no_kwargs_def upper_GET upper_POST upper_put
      constant_transport_def example_response_def)

subsection \<open>The request line\<close>

text \<open>
  C5, as amended. The request line is \<^verbatim>\<open>--> METHOD URL\<close> with the method in upper case.
  The payload is the value of the first of \<^verbatim>\<open>json\<close>, \<^verbatim>\<open>data\<close>, \<^verbatim>\<open>params\<close> that is present
  in the options, whatever the later ones hold. When that value is neither \<^verbatim>\<open>None\<close> nor an
  empty dictionary and serialises to JSON, the line continues with \<^verbatim>\<open> with data:\<close>, a line
  break and the serialisation indented by four spaces; when no option is present, or the
  first present value is \<^verbatim>\<open>None\<close> or an empty dictionary, the line has no payload part.
\<close>

theorem log_request_first_present_key:
  "(json kw = None \<and> data kw = None \<and> params kw = None \<longrightarrow>
      log_request verb url kw w = (Inr (), logger_debug (''--> '' @ upper verb @ '' '' @ url) w))
   \<and> (json kw = Some d
        \<or> json kw = None \<and> data kw = Some d
        \<or> json kw = None \<and> data kw = None \<and> params kw = Some d \<longrightarrow>
      (d = PNone \<or> d = PDict [] \<longrightarrow>
         log_request verb url kw w =
           (Inr (), logger_debug (''--> '' @ upper verb @ '' '' @ url) w))
      \<and> (d \<noteq> PNone \<and> d \<noteq> PDict [] \<longrightarrow>
         (\<forall>s. json_dumps_indent4 d = Inr s \<longrightarrow>
            log_request verb url kw w =
              (Inr (), logger_debug (''--> '' @ upper verb @ '' '' @ url
                                     @ '' with data:\<newline>'' @ s) w))))"
  unfolding log_request_def first_present Let_def
  by (auto split: option.splits)

text \<open>
  The specification's example \<^verbatim>\<open>json={"a": 1}\<close>, no option at all, an empty \<^verbatim>\<open>json\<close> before
  a non-empty \<^verbatim>\<open>params\<close>, and \<^verbatim>\<open>params\<close> alone.
\<close>

theorem log_request_first_present_key_witness:
  "log_request ''get'' ''http://x'' (no_kwargs\<lparr>json := Some (PDict [(''a'', PInt 1)])\<rparr>) empty_world
     = (Inr (), logger_debug (''--> GET http://x with data:\<newline>{\<newline>    '' @ [CHR 0x22] @ ''a''
                               @ [CHR 0x22] @ '': 1\<newline>}'') empty_world)
   \<and> log_request ''get'' ''http://x'' no_kwargs empty_world
     = (Inr (), logger_debug ''--> GET http://x'' empty_world)
   \<and> log_request ''get'' ''http://x''
        (no_kwargs\<lparr>json := Some (PDict []), params := Some (PDict [(''a'', PInt 1)])\<rparr>) empty_world
     = (Inr (), logger_debug ''--> GET http://x'' empty_world)
   \<and> log_request ''get'' ''http://x''
        (no_kwargs\<lparr>params := Some (PDict [(''a'', PInt 1)])\<rparr>) empty_world
     = (Inr (), logger_debug (''--> GET http://x with data:\<newline>{\<newline>    '' @ [CHR 0x22] @ ''a''
                               @ [CHR 0x22] @ '': 1\<newline>}'') empty_world)"
  using log_request_first_present_key
          [where kw = "no_kwargs\<lparr>json := Some (PDict [(''a'', PInt 1)])\<rparr>"
             and d = "PDict [(''a'', PInt 1)]" and verb = "''get''" and url = "''http://x''"
             and w = empty_world]
        log_request_first_present_key
          [where kw = no_kwargs and verb = "''get''" and url = "''http://x''" and w = empty_world]
        log_request_first_present_key
          [where kw = "no_kwargs\<lparr>json := Some (PDict []), params := Some (PDict [(''a'', PInt 1)])\<rparr>"
             and d = "PDict []" and verb = "''get''" and url = "''http://x''" and w = empty_world]
        log_request_first_present_key
          [where kw = "no_kwargs\<lparr>params := Some (PDict [(''a'', PInt 1)])\<rparr>"
             and d = "PDict [(''a'', PInt 1)]" and verb = "''get''" and url = "''http://x''"
             and w = empty_world]
  by (simp add: no_kwargs_def dumps_a1 upper_get)

text \<open>
  The claim as first stated fails when \<^verbatim>\<open>json\<close> is an empty dictionary and \<^verbatim>\<open>data\<close> is
  not: the specification's wording logs \<^verbatim>\<open>data\<close>, the client logs no payload.
\<close>

theorem log_request_priority_counterexample:
  "claimed_request_line ''GET'' ''http://x''
      (no_kwargs\<lparr>json := Some (PDict []), data := Some (PDict [(''a'', PInt 1)])\<rparr>)
     = Inr (''--> GET http://x with data:\<newline>{\<newline>    '' @ [CHR 0x22] @ ''a'' @ [CHR 0x22] @ '': 1\<newline>}'')
   \<and> log_request ''GET'' ''http://x''
      (no_kwargs\<lparr>json := Some (PDict []), data := Some (PDict [(''a'', PInt 1)])\<rparr>) empty_world
     = (Inr (), logger_debug ''--> GET http://x'' empty_world)"
proof -
  have "claimed_payload (no_kwargs\<lparr>json := Some (PDict []), data := Some (PDict [(''a'', PInt 1)])\<rparr>)
         = Some (PDict [(''a'', PInt 1)])"
    by (simp add: claimed_payload_def List.map_filter_simps kwargs_get_def no_kwargs_def)
  moreover have "log_request ''GET'' ''http://x''
      (no_kwargs\<lparr>json := Some (PDict []), data := Some (PDict [(''a'', PInt 1)])\<rparr>) empty_world
     = (Inr (), logger_debug ''--> GET http://x'' empty_world)"
    unfolding log_request_def first_present
    by (simp add: no_kwargs_def upper_GET)
  ultimately show ?thesis
    by (simp add: claimed_request_line_def dumps_a1 upper_GET)
qed

subsection \<open>A download with a known size\<close>

text \<open>
  C6. A \<^verbatim>\<open>download_file\<close> call whose response carries \<^verbatim>\<open>content-length: 1024\<close> and whose
  body arrives in two chunks of 512 bytes issues exactly two progress updates, 50 and then
  100 percent, between the creation of the task and the stop, and leaves the two chunks,
  concatenated in order, at the output path. (The streamed GET returned the response and
  the output path can be written.)
\<close>

theorem download_file_two_chunks:
  assumes "get env url (no_kwargs\<lparr>stream := Some True\<rparr>) w = (Inr r, w1)"
      and "headers r ''content-length'' = Some ''1024''"
      and "iter_content r = [Chunk c1, Chunk c2]"
      and "length c1 = 512" and "length c2 = 512"
      and "output_path \<notin> set (unwritable w1)"
  shows "download_file env url output_path w =
     (Inr (),
      w1\<lparr>files := (files w1)(output_path \<mapsto> c1 @ c2),
         progress_log := progress_log w1 @
           [Progress_created,
            Add_task [] (length (filter is_add_task (progress_log w1))),
            Update (length (filter is_add_task (progress_log w1))) 50,
            Update (length (filter is_add_task (progress_log w1))) 100,
            Stop]\<rparr>)"
proof -
  let ?t = "length (filter is_add_task (progress_log w1))"
  let ?w2 = "w1\<lparr>progress_log := progress_log w1 @ [Progress_created, Add_task [] ?t]\<rparr>"
  have "output_path \<notin> set (unwritable ?w2)" using assms(6) by simp
  from write_body_complete [OF this, of "Some ?t" 1024 "[c1, c2]"]
  have "write_body (Some ?t) 1024 output_path (iter_content r) ?w2 =
     (Inr (), ?w2\<lparr>files := (files ?w2)(output_path \<mapsto> concat [c1, c2]),
        progress_log := progress_log ?w2 @ [Update ?t 50, Update ?t 100]\<rparr>)"
    by (simp add: assms(3) reported_two [OF assms(4) assms(5)])
  then show ?thesis
    using download_file_with_progress [OF assms(1) content_length_1024 [OF assms(2)], of output_path]
    by (simp add: progress_stop_def)
qed

theorem download_file_two_chunks_witness:
  "download_file
     (constant_transport (example_download [(''content-length'', ''1024'')]
        [Chunk (replicate 512 1), Chunk (replicate 512 2)]))
     ''http://x/f'' ''out.bin'' empty_world
   = (Inr (),
      \<lparr>debug_log = [''--> GET http://x/f''],
       progress_log = [Progress_created, Add_task [] 0, Update 0 50, Update 0 100, Stop],
       files = [''out.bin'' \<mapsto> replicate 512 1 @ replicate 512 2],
       open_handles = [], unwritable = []\<rparr>)"
  using download_file_two_chunks
          [where env = "constant_transport (example_download [(''content-length'', ''1024'')]
                   [Chunk (replicate 512 1), Chunk (replicate 512 2)])"
             and url = "''http://x/f''" and w = empty_world
             and r = "example_download [(''content-length'', ''1024'')]
                   [Chunk (replicate 512 1), Chunk (replicate 512 2)]"
             and ?w1.0 = "logger_debug ''--> GET http://x/f'' empty_world"
             and ?c1.0 = "replicate 512 1" and ?c2.0 = "replicate 512 2"
             and output_path = "''out.bin''"]
  by (simp add: example_download_ok)
     (simp add: example_download_def logger_debug_def empty_world_def)

subsection \<open>A cancelled download\<close>

text \<open>
  C7. A \<^verbatim>\<open>download_file\<close> call that the user cancels after the chunks \<open>cs\<close> raises
  \<^verbatim>\<open>KeyboardInterrupt\<close> to the caller; the file holds exactly the chunks written before,
  nothing of what would have followed, and is not deleted; the progress indicator, when one
  was acquired (a positive total), is stopped exactly once, as the last call on it, and is
  not touched otherwise.
\<close>

theorem download_file_cancelled:
  assumes "get env url (no_kwargs\<lparr>stream := Some True\<rparr>) w = (Inr r, w1)"
      and "content_length r = Inr tot"
      and "iter_content r = map Chunk cs @ Cancelled # rest"
      and "output_path \<notin> set (unwritable w1)"
  shows "download_file env url output_path w =
     (Inl KeyboardInterrupt,
      w1\<lparr>files := (files w1)(output_path \<mapsto> concat cs),
         progress_log := progress_log w1 @
           (if 0 < tot
            then [Progress_created, Add_task [] (length (filter is_add_task (progress_log w1)))]
                 @ reported (length (filter is_add_task (progress_log w1))) tot 0 cs @ [Stop]
            else [])\<rparr>)
   \<and> count_list (progress_log (snd (download_file env url output_path w))) Stop =
       count_list (progress_log w1) Stop + (if 0 < tot then 1 else 0)"
proof -
  let ?t = "length (filter is_add_task (progress_log w1))"
  let ?w2 = "w1\<lparr>progress_log := progress_log w1 @ [Progress_created, Add_task [] ?t]\<rparr>"
  let ?end = "w1\<lparr>files := (files w1)(output_path \<mapsto> concat cs),
         progress_log := progress_log w1 @
           (if 0 < tot then [Progress_created, Add_task [] ?t] @ reported ?t tot 0 cs @ [Stop]
            else [])\<rparr>"
  have result: "download_file env url output_path w = (Inl KeyboardInterrupt, ?end)"
  proof (cases "0 < tot")
    case True
    have "output_path \<notin> set (unwritable ?w2)" using assms(4) by simp
    from write_body_cancelled [OF this, of "Some ?t" tot cs rest]
    show ?thesis
      using download_file_with_progress [OF assms(1) assms(2) True, of output_path] True
      by (simp add: assms(3) progress_stop_def)
  next
    case False
    then have "tot \<le> 0" by simp
    from download_file_without_progress [OF assms(1) assms(2) this, of output_path]
         write_body_cancelled [OF assms(4), of None tot cs rest]
    show ?thesis using False by (simp add: assms(3))
  qed
  then show ?thesis by (simp add: count_reported)
qed

text \<open>A cancellation with a progress indicator, and one without.\<close>

theorem download_file_cancelled_witness:
  "download_file
     (constant_transport (example_download [(''content-length'', ''1024'')]
        [Chunk (replicate 256 7), Cancelled, Chunk [9]]))
     ''http://x/f'' ''out.bin'' empty_world
   = (Inl KeyboardInterrupt,
      \<lparr>debug_log = [''--> GET http://x/f''],
       progress_log = [Progress_created, Add_task [] 0, Update 0 25, Stop],
       files = [''out.bin'' \<mapsto> replicate 256 7],
       open_handles = [], unwritable = []\<rparr>)
   \<and> download_file
     (constant_transport (example_download [] [Chunk [1, 2], Cancelled, Chunk [9]]))
     ''http://x/f'' ''out.bin'' empty_world
   = (Inl KeyboardInterrupt,
      \<lparr>debug_log = [''--> GET http://x/f''], progress_log = [],
       files = [''out.bin'' \<mapsto> [1, 2]], open_handles = [], unwritable = []\<rparr>)"
  using download_file_cancelled
          [where env = "constant_transport (example_download [(''content-length'', ''1024'')]
                   [Chunk (replicate 256 7), Cancelled, Chunk [9]])"
             and url = "''http://x/f''" and w = empty_world
             and r = "example_download [(''content-length'', ''1024'')]
                   [Chunk (replicate 256 7), Cancelled, Chunk [9]]"
             and ?w1.0 = "logger_debug ''--> GET http://x/f'' empty_world"
             and tot = 1024 and cs = "[replicate 256 7]" and rest = "[Chunk [9]]"
             and output_path = "''out.bin''"]
        download_file_cancelled
          [where env = "constant_transport (example_download [] [Chunk [1, 2], Cancelled, Chunk [9]])"
             and url = "''http://x/f''" and w = empty_world
             and r = "example_download [] [Chunk [1, 2], Cancelled, Chunk [9]]"
             and ?w1.0 = "logger_debug ''--> GET http://x/f'' empty_world"
             and tot = 0 and cs = "[[1, 2]]" and rest = "[Chunk [9]]"
             and output_path = "''out.bin''"]
  by (simp add: example_download_ok)
     (simp add: example_download_def logger_debug_def empty_world_def content_length_def
        py_int_def is_space_def digit_value_def reported_Cons reported_Nil is_add_task_def)

subsection \<open>A download of unknown size\<close>

text \<open>
  C8. A \<^verbatim>\<open>download_file\<close> call whose response has no \<^verbatim>\<open>content-length\<close> header, or the
  value \<^verbatim>\<open>0\<close>, acquires no progress indicator (the progress log is unchanged) and writes
  the whole streamed body to the output path.
\<close>

theorem download_file_unknown_size:
  assumes "get env url (no_kwargs\<lparr>stream := Some True\<rparr>) w = (Inr r, w1)"
      and "headers r ''content-length'' = None \<or> headers r ''content-length'' = Some ''0''"
      and "iter_content r = map Chunk cs"
      and "output_path \<notin> set (unwritable w1)"
  shows "download_file env url output_path w =
     (Inr (), w1\<lparr>files := (files w1)(output_path \<mapsto> concat cs)\<rparr>)"
  using download_file_without_progress [OF assms(1) content_length_zero [OF assms(2)], of output_path]
        write_body_complete [OF assms(4), of None 0 cs]
  by (simp add: assms(3))

theorem download_file_unknown_size_witness:
  "download_file
     (constant_transport (example_download [] [Chunk [1, 2], Chunk [3]]))
     ''http://x/f'' ''out.bin'' empty_world
   = (Inr (),
      \<lparr>debug_log = [''--> GET http://x/f''], progress_log = [],
       files = [''out.bin'' \<mapsto> [1, 2, 3]], open_handles = [], unwritable = []\<rparr>)
   \<and> download_file
     (constant_transport (example_download [(''content-length'', ''0'')] [Chunk [1, 2], Chunk [3]]))
     ''http://x/f'' ''out.bin'' empty_world
   = (Inr (),
      \<lparr>debug_log = [''--> GET http://x/f''], progress_log = [],
       files = [''out.bin'' \<mapsto> [1, 2, 3]], open_handles = [], unwritable = []\<rparr>)"
  using download_file_unknown_size
          [where env = "constant_transport (example_download [] [Chunk [1, 2], Chunk [3]])"
             and url = "''http://x/f''" and w = empty_world
             and r = "example_download [] [Chunk [1, 2], Chunk [3]]"
             and ?w1.0 = "logger_debug ''--> GET http://x/f'' empty_world"
             and cs = "[[1, 2], [3]]" and output_path = "''out.bin''"]
        download_file_unknown_size
          [where env = "constant_transport (example_download [(''content-length'', ''0'')]
                          [Chunk [1, 2], Chunk [3]])"
             and url = "''http://x/f''" and w = empty_world
             and r = "example_download [(''content-length'', ''0'')] [Chunk [1, 2], Chunk [3]]"
             and ?w1.0 = "logger_debug ''--> GET http://x/f'' empty_world"
             and cs = "[[1, 2], [3]]" and output_path = "''out.bin''"]
  by (simp add: example_download_ok)
     (simp add: example_download_def logger_debug_def empty_world_def)

subsection \<open>The log of an unsuccessful response\<close>

text \<open>
  C9. \<^verbatim>\<open>log_unsuccessful_response\<close> emits exactly one debug line, made of the status code and
  then the marker \<^verbatim>\<open>empty body\<close> when the body text is empty, or \<^verbatim>\<open>body:\<close>, a line break and
  the text when it is not; nothing else in the world changes.
\<close>

theorem log_unsuccessful_response_message:
  "(body_text r = [] \<longrightarrow>
      log_unsuccessful_response r w =
        w\<lparr>debug_log := debug_log w @
          [''Request was not successful, status code '' @ str_int (status_code r)
           @ '', empty body'']\<rparr>)
   \<and> (body_text r \<noteq> [] \<longrightarrow>
      log_unsuccessful_response r w =
        w\<lparr>debug_log := debug_log w @
          [''Request was not successful, status code '' @ str_int (status_code r)
           @ '', body:\<newline>'' @ body_text r]\<rparr>)"
  by (simp add: log_unsuccessful_response_def logger_debug_def)

theorem log_unsuccessful_response_message_witness:
  "debug_log (log_unsuccessful_response
      \<lparr>status_code = 404, body_text = [], headers = Map.empty, iter_content = []\<rparr> empty_world)
     = [''Request was not successful, status code 404, empty body'']
   \<and> debug_log (log_unsuccessful_response
      \<lparr>status_code = 500, body_text = ''boom'', headers = Map.empty, iter_content = []\<rparr> empty_world)
     = [''Request was not successful, status code 500, body:\<newline>boom'']"
  using log_unsuccessful_response_message
          [of "\<lparr>status_code = 404, body_text = [], headers = Map.empty, iter_content = []\<rparr>" empty_world]
        log_unsuccessful_response_message
          [of "\<lparr>status_code = 500, body_text = ''boom'', headers = Map.empty, iter_content = []\<rparr>" empty_world]
  by (simp add: empty_world_def str_int_def str_nat.simps)

subsection \<open>A download that fails while streaming\<close>

text \<open>
  C10. In a \<^verbatim>\<open>download_file\<close> call that acquired a progress indicator: when reading a chunk
  fails with an exception other than the cancellation, the exception reaches the caller and
  the indicator has not been stopped; the file handle is released whatever happens; and
  the indicator is stopped once when the call completes or is cancelled, and never
  otherwise.
\<close>

theorem download_file_read_error_leaves_progress_running:
  assumes "get env url (no_kwargs\<lparr>stream := Some True\<rparr>) w = (Inr r, w1)"
      and "content_length r = Inr tot"
      and "0 < tot"
  shows "(iter_content r = map Chunk cs @ Read_failed reason # rest
          \<and> output_path \<notin> set (unwritable w1) \<longrightarrow>
          download_file env url output_path w =
            (Inl (ChunkedEncodingError reason),
             w1\<lparr>files := (files w1)(output_path \<mapsto> concat cs),
                progress_log := progress_log w1 @
                  [Progress_created, Add_task [] (length (filter is_add_task (progress_log w1)))]
                  @ reported (length (filter is_add_task (progress_log w1))) tot 0 cs\<rparr>))
   \<and> open_handles (snd (download_file env url output_path w)) = open_handles w1
   \<and> count_list (progress_log (snd (download_file env url output_path w))) Stop =
       count_list (progress_log w1) Stop
       + (if fst (download_file env url output_path w) = Inr ()
             \<or> fst (download_file env url output_path w) = Inl KeyboardInterrupt
          then 1 else 0)"
proof -
  let ?t = "length (filter is_add_task (progress_log w1))"
  let ?w2 = "w1\<lparr>progress_log := progress_log w1 @ [Progress_created, Add_task [] ?t]\<rparr>"
  note unfolded = download_file_with_progress [OF assms, of output_path]
  have specific: "download_file env url output_path w =
            (Inl (ChunkedEncodingError reason),
             w1\<lparr>files := (files w1)(output_path \<mapsto> concat cs),
                progress_log := progress_log w1 @ [Progress_created, Add_task [] ?t]
                  @ reported ?t tot 0 cs\<rparr>)"
    if "iter_content r = map Chunk cs @ Read_failed reason # rest"
      and "output_path \<notin> set (unwritable w1)"
  proof -
    have "output_path \<notin> set (unwritable ?w2)" using that(2) by simp
    from write_body_read_failed [OF this, of "Some ?t" tot cs reason rest]
    show ?thesis using unfolded by (simp add: that(1))
  qed
  obtain out w3 where wb: "write_body (Some ?t) tot output_path (iter_content r) ?w2 = (out, w3)"
    by (cases "write_body (Some ?t) tot output_path (iter_content r) ?w2") auto
  have keeps: "count_list (progress_log w3) Stop = count_list (progress_log w1) Stop"
      "open_handles w3 = open_handles w1"
    using write_body_keeps [of "Some ?t" tot output_path "iter_content r" ?w2] wb by simp_all
  have general: "open_handles (snd (download_file env url output_path w)) = open_handles w1
   \<and> count_list (progress_log (snd (download_file env url output_path w))) Stop =
       count_list (progress_log w1) Stop
       + (if fst (download_file env url output_path w) = Inr ()
             \<or> fst (download_file env url output_path w) = Inl KeyboardInterrupt
          then 1 else 0)"
  proof (cases out)
    case (Inl e)
    then show ?thesis
      using unfolded wb keeps by (cases e) (simp_all add: progress_stop_def)
  next
    case (Inr u)
    then show ?thesis
      using unfolded wb keeps by (simp add: progress_stop_def)
  qed
  from specific general show ?thesis by blast
qed

theorem download_file_read_error_leaves_progress_running_witness:
  "download_file
     (constant_transport (example_download [(''content-length'', ''1024'')]
        [Chunk (replicate 256 7), Read_failed ''reset'', Chunk [9]]))
     ''http://x/f'' ''out.bin'' empty_world
   = (Inl (ChunkedEncodingError ''reset''),
      \<lparr>debug_log = [''--> GET http://x/f''],
       progress_log = [Progress_created, Add_task [] 0, Update 0 25],
       files = [''out.bin'' \<mapsto> replicate 256 7],
       open_handles = [], unwritable = []\<rparr>)"
  using download_file_read_error_leaves_progress_running
          [where env = "constant_transport (example_download [(''content-length'', ''1024'')]
                   [Chunk (replicate 256 7), Read_failed ''reset'', Chunk [9]])"
             and url = "''http://x/f''" and w = empty_world
             and r = "example_download [(''content-length'', ''1024'')]
                   [Chunk (replicate 256 7), Read_failed ''reset'', Chunk [9]]"
             and ?w1.0 = "logger_debug ''--> GET http://x/f'' empty_world"
             and tot = 1024 and cs = "[replicate 256 7]" and rest = "[Chunk [9]]"
             and reason = "''reset''" and output_path = "''out.bin''"]
  by (simp add: example_download_ok)
     (simp add: example_download_def logger_debug_def empty_world_def content_length_def
        py_int_def is_space_def digit_value_def reported_Cons reported_Nil is_add_task_def)

end
